theory Spec2Isabelle
  imports Main
begin

section \<open>Values, errors and the outside world\<close>

text \<open>
  The result of \<^verbatim>\<open>json.loads\<close>. A JSON object is the parsed \<^verbatim>\<open>dict\<close>, kept as an
  association list read with \<open>map_of\<close>. Floating-point numbers are left out: no code
  path of the repository computes with them. \<^verbatim>\<open>json.loads(json.dumps(v))\<close> returns a
  value equal to \<open>v\<close> on these values, so a function that takes \<^verbatim>\<open>jsonData\<close> is modelled
  on the parsed value.
\<close>

datatype json =
    JNull
  | JBool bool
  | JInt int
  | JStr string
  | JArr "json list"
  | JObj "(string \<times> json) list"

text \<open>
  The exceptions that the modelled code can raise. \<open>ClosedSocketException\<close> is the
  repository's own; the others are Python's. \<open>TransportError\<close> stands for whatever the
  HTTP client or the websocket library raises; its text is theirs.
\<close>

datatype error =
    KeyError string
  | TypeError
  | AttributeError string
  | ValueError
  | RuntimeError
  | ClosedSocketException
  | TransportError string

text \<open>\<^verbatim>\<open>data[k]\<close> with a string key: only a dict can be subscripted by a string.\<close>

fun getitem :: "json \<Rightarrow> string \<Rightarrow> error + json" where
  "getitem (JObj kvs) k = (case map_of kvs k of None \<Rightarrow> Inl (KeyError k) | Some v \<Rightarrow> Inr v)"
| "getitem _ k = Inl TypeError"

text \<open>\<^verbatim>\<open>data.get(k)\<close>: \<open>JNull\<close> is Python's \<^verbatim>\<open>None\<close>; only a dict has the method.\<close>

fun dict_get :: "json \<Rightarrow> string \<Rightarrow> error + json" where
  "dict_get (JObj kvs) k = Inr (case map_of kvs k of None \<Rightarrow> JNull | Some v \<Rightarrow> v)"
| "dict_get _ k = Inl (AttributeError ''get'')"

text \<open>
  \<^verbatim>\<open>for x in v\<close>: a list yields its elements, a string its characters, a dict its
  keys; nothing else is iterable.
\<close>

fun iter :: "json \<Rightarrow> error + json list" where
  "iter (JArr xs) = Inr xs"
| "iter (JStr s) = Inr (map (\<lambda>c. JStr [c]) s)"
| "iter (JObj kvs) = Inr (map JStr (remdups (map fst kvs)))"
| "iter _ = Inl TypeError"

text \<open>
  Keys of a Python dict: \<^verbatim>\<open>True\<close> and \<^verbatim>\<open>1\<close> are the same key, lists and dicts are
  unhashable.
\<close>

datatype pykey = KNone | KInt int | KStr string

fun hash_key :: "json \<Rightarrow> error + pykey" where
  "hash_key JNull = Inr KNone"
| "hash_key (JBool b) = Inr (KInt (if b then 1 else 0))"
| "hash_key (JInt i) = Inr (KInt i)"
| "hash_key (JStr s) = Inr (KStr s)"
| "hash_key _ = Inl TypeError"

definition bind_r :: "error + 'a \<Rightarrow> ('a \<Rightarrow> error + 'b) \<Rightarrow> error + 'b" where
  "bind_r m f = (case m of Inl e \<Rightarrow> Inl e | Inr x \<Rightarrow> f x)"

subsection \<open>The HTTP client\<close>

text \<open>
  Modelled from the spec: \<^verbatim>\<open>pyvolt/client.py\<close> (\<^verbatim>\<open>HTTPClient\<close>, \<^verbatim>\<open>Request\<close>,
  \<^verbatim>\<open>Method\<close>) is not among the sources. The spec's transport contract is
  \<^verbatim>\<open>request(method, path, body?, authToken?) -> JSON | fails(TransportError)\<close> and
  \<^verbatim>\<open>close()\<close> "releases resources; idempotent". A request is the record of the
  constructor's arguments and of \<^verbatim>\<open>AddAuthentication\<close>; what a request returns is a
  parameter of the model (\<open>http\<close> below) and may depend on whether the client was closed.
\<close>

datatype Method = GET | POST

record Request =
  meth :: Method
  url :: string
  body :: "json option"
  auth :: "string option"

record HTTPClient =
  closed :: bool

definition HTTPClient_init :: HTTPClient where
  "HTTPClient_init = \<lparr>closed = False\<rparr>"

definition HTTPClient_Close :: "HTTPClient \<Rightarrow> HTTPClient" where
  "HTTPClient_Close c = c\<lparr>closed := True\<rparr>"

definition AddAuthentication :: "Request \<Rightarrow> string \<Rightarrow> Request" where
  "AddAuthentication r t = r\<lparr>auth := Some t\<rparr>"

text \<open>
  The environment: the answers of the REST server and of \<^verbatim>\<open>websockets.client.connect\<close>
  (\<open>None\<close>: the connection is established). Every theorem holds for every environment.
\<close>

record env =
  http :: "HTTPClient \<Rightarrow> Request \<Rightarrow> error + json"
  ws_connect :: "json \<Rightarrow> error option"

text \<open>
  What the program does to the outside, in order: \<open>HTTP\<close> a call of
  \<^verbatim>\<open>HTTPClient.Request\<close>, \<open>WSConnect\<close> a call of \<^verbatim>\<open>client.connect\<close> that opened a
  socket and \<open>WSConnectFailed\<close> one that raised, \<open>WSClose\<close> and \<open>WSSend\<close> the calls of \<^verbatim>\<open>websocket.close\<close> and \<^verbatim>\<open>websocket.send\<close> (the frame is the
  value given to \<^verbatim>\<open>json.dumps\<close>), \<open>Wait\<close> the heartbeat thread's \<^verbatim>\<open>stopEvent.wait\<close> and
  \<open>Result\<close> its \<^verbatim>\<open>func.result\<close>, each with its timeout. \<open>next_oid\<close> numbers the
  \<^verbatim>\<open>User\<close> objects created so far: two references are the same object instance iff
  they carry the same number.
\<close>

datatype effect =
    HTTP Request
  | WSConnect json
  | WSConnectFailed json
  | WSClose
  | WSSend json
  | Wait int
  | Result int

record world =
  trace :: "effect list"
  next_oid :: nat

definition emit :: "effect \<Rightarrow> world \<Rightarrow> world" where
  "emit e w = w\<lparr>trace := trace w @ [e]\<rparr>"

definition do_request :: "env \<Rightarrow> HTTPClient \<Rightarrow> Request \<Rightarrow> world \<Rightarrow> (error + json) \<times> world" where
  "do_request E c r w = (http E c r, emit (HTTP r) w)"

section \<open>The gateway (\<^verbatim>\<open>pyvolt/gateway.py\<close>)\<close>

text \<open>
  The state of the \<^verbatim>\<open>websockets\<close> protocol object; its property \<^verbatim>\<open>open\<close> holds in state
  \<open>OPEN\<close> only. A protocol object made by its constructor, as in
  \<^verbatim>\<open>Gateway.__init__\<close>, is \<open>CONNECTING\<close>; \<^verbatim>\<open>client.connect\<close> returns one that is
  \<open>OPEN\<close>; \<^verbatim>\<open>close()\<close> returns when it is \<open>CLOSED\<close>.
\<close>

datatype ws_state = CONNECTING | OPEN | CLOSING | CLOSED

text \<open>
  A \<^verbatim>\<open>threading.Thread\<close>: \<^verbatim>\<open>start()\<close> may be called once in the life of the object, a
  second call raises \<^verbatim>\<open>RuntimeError\<close>, also after the thread has finished.
\<close>

datatype thread_state = Initial | Running | Finished

record GatewayKeepAlive =
  interval :: int
  daemon :: bool
  stopEvent :: bool
  thread :: thread_state

record Gateway =
  client :: HTTPClient
  keepAlive :: GatewayKeepAlive
  websocket :: ws_state

definition GatewayKeepAlive_init :: "int \<Rightarrow> GatewayKeepAlive" where
  "GatewayKeepAlive_init i = \<lparr>interval = i, daemon = True, stopEvent = False, thread = Initial\<rparr>"

definition Gateway_init :: Gateway where
  "Gateway_init = \<lparr>client = HTTPClient_init, keepAlive = GatewayKeepAlive_init 20,
     websocket = CONNECTING\<rparr>"

definition ws_open :: "Gateway \<Rightarrow> bool" where
  "ws_open g = (websocket g = OPEN)"

definition GetPayload :: json where
  "GetPayload = JObj [(''type'', JStr ''Ping''), (''data'', JInt 0)]"

definition Thread_start :: "GatewayKeepAlive \<Rightarrow> error + GatewayKeepAlive" where
  "Thread_start k = (if thread k = Initial then Inr (k\<lparr>thread := Running\<rparr>) else Inl RuntimeError)"

definition Close :: "world \<times> Gateway \<Rightarrow> (error + unit) \<times> world \<times> Gateway" where
  "Close s =
     (let w = fst s; g = (snd s)\<lparr>client := HTTPClient_Close (client (snd s))\<rparr>
      in if ws_open g
         then (Inr (), emit WSClose w,
               g\<lparr>websocket := CLOSED, keepAlive := (keepAlive g)\<lparr>stopEvent := True\<rparr>\<rparr>)
         else (Inr (), w, g))"

definition GetWebsocketURL :: "env \<Rightarrow> world \<times> Gateway \<Rightarrow> (error + json) \<times> world" where
  "GetWebsocketURL E s =
     (case do_request E (client (snd s)) \<lparr>meth = GET, url = ''/'', body = None, auth = None\<rparr> (fst s) of
        (Inl e, w) \<Rightarrow> (Inl e, w)
      | (Inr result, w) \<Rightarrow> (getitem result ''ws'', w))"

definition Connect :: "env \<Rightarrow> world \<times> Gateway \<Rightarrow> (error + unit) \<times> world \<times> Gateway" where
  "Connect E s =
     (let g = snd s in
      if \<not> ws_open g then
        (case GetWebsocketURL E s of
           (Inl e, w) \<Rightarrow> (Inl e, w, g)
         | (Inr u, w) \<Rightarrow>
             (case ws_connect E u of
                Some e \<Rightarrow> (Inl e, emit (WSConnectFailed u) w, g)
              | None \<Rightarrow>
                  (let g1 = g\<lparr>websocket := OPEN\<rparr>;
                       g2 = g1\<lparr>keepAlive := (keepAlive g1)\<lparr>stopEvent := False\<rparr>\<rparr>
                   in case Thread_start (keepAlive g2) of
                        Inl e \<Rightarrow> (Inl e, emit (WSConnect u) w, g2)
                      | Inr k \<Rightarrow> (Inr (), emit (WSConnect u) w, g2\<lparr>keepAlive := k\<rparr>))))
      else (Inr (), fst s, g))"

definition Send :: "world \<times> Gateway \<Rightarrow> json \<Rightarrow> (error + unit) \<times> world \<times> Gateway" where
  "Send s data =
     (if ws_open (snd s) then (Inr (), emit (WSSend data) (fst s), snd s)
      else (Inl ClosedSocketException, fst s, snd s))"

definition Authenticate :: "world \<times> Gateway \<Rightarrow> string \<Rightarrow> (error + unit) \<times> world \<times> Gateway" where
  "Authenticate s tok = Send s (JObj [(''type'', JStr ''Authenticate''), (''token'', JStr tok)])"

text \<open>
  One turn of the loop of \<^verbatim>\<open>GatewayKeepAlive.run\<close>: the wait on the stop event, and when
  the event was not set, the body. Between two turns the other operations may run. An
  exception of \<^verbatim>\<open>Send\<close> comes back through \<^verbatim>\<open>func.result(10)\<close> and ends the thread, as
  leaving the loop does. That the event loop does not answer within the 10 time-units
  is not modelled.
\<close>

definition run_step :: "world \<times> Gateway \<Rightarrow> world \<times> Gateway" where
  "run_step s =
     (let g = snd s; k = keepAlive g; w = emit (Wait (interval k)) (fst s)
      in if stopEvent k then (w, g\<lparr>keepAlive := k\<lparr>thread := Finished\<rparr>\<rparr>)
         else (case Send (w, g) GetPayload of
                 (Inl e, w1, g1) \<Rightarrow>
                   (emit (Result 10) w1, g1\<lparr>keepAlive := (keepAlive g1)\<lparr>thread := Finished\<rparr>\<rparr>)
               | (Inr u, w1, g1) \<Rightarrow> (emit (Result 10) w1, g1)))"

text \<open>
  The heartbeat is running when its thread was started, has not ended, and its stop
  event is not set: its next turn sends a Ping.
\<close>

definition heartbeat_running :: "Gateway \<Rightarrow> bool" where
  "heartbeat_running g = (thread (keepAlive g) = Running \<and> \<not> stopEvent (keepAlive g))"

text \<open>The peer or the network ends the connection: \<^verbatim>\<open>websocket.open\<close> turns false.\<close>

definition connection_lost :: "Gateway \<Rightarrow> Gateway" where
  "connection_lost g = g\<lparr>websocket := CLOSED\<rparr>"

definition world_init :: world where
  "world_init = \<lparr>trace = [], next_oid = 0\<rparr>"

section \<open>Users (\<^verbatim>\<open>pyvolt/structs/user.py\<close>)\<close>

datatype Relationship =
  Blocked | BlockedOther | Friend | Incoming | Outgoing | NoRelationship | UserRelation

datatype Presence = Busy | Idle | Invisible | Online

text \<open>\<^verbatim>\<open>Relationship(v)\<close> and \<^verbatim>\<open>Presence(v)\<close>: the member with that value, or \<^verbatim>\<open>ValueError\<close>.\<close>

definition Relationship_of :: "json \<Rightarrow> error + Relationship" where
  "Relationship_of v =
     (if v = JStr ''Blocked'' then Inr Blocked
      else if v = JStr ''BlockedOther'' then Inr BlockedOther
      else if v = JStr ''Friend'' then Inr Friend
      else if v = JStr ''Incoming'' then Inr Incoming
      else if v = JStr ''Outgoing'' then Inr Outgoing
      else if v = JStr ''None'' then Inr NoRelationship
      else if v = JStr ''User'' then Inr UserRelation
      else Inl ValueError)"

definition Presence_of :: "json \<Rightarrow> error + Presence" where
  "Presence_of v =
     (if v = JStr ''Busy'' then Inr Busy
      else if v = JStr ''Idle'' then Inr Idle
      else if v = JStr ''Invisible'' then Inr Invisible
      else if v = JStr ''Online'' then Inr Online
      else Inl ValueError)"

record Status =
  presence :: Presence
  status_text :: json

record Bot =
  ownerID :: json

text \<open>
  A \<^verbatim>\<open>User\<close> object: \<open>oid\<close> is its identity, the other fields are the attributes that
  \<^verbatim>\<open>User.__init__\<close> sets, \<open>u_id\<close> for \<^verbatim>\<open>self.id\<close> and so on. An attribute that
  \<^verbatim>\<open>kwargs.get\<close> leaves \<^verbatim>\<open>None\<close> is \<open>JNull\<close> or \<open>None\<close>.
\<close>

record User =
  oid :: nat
  u_id :: json
  u_username :: json
  u_badges :: json
  u_online :: json
  u_relationship :: "Relationship option"
  u_status :: "Status option"
  u_flags :: json
  u_bot :: "Bot option"

text \<open>
  The pattern \<^verbatim>\<open>if data.get(p) is not None: kwargs[..] = data[k]\<close>, read back later with
  \<^verbatim>\<open>kwargs.get\<close>: the value of \<^verbatim>\<open>data[k]\<close> when \<^verbatim>\<open>data.get(p)\<close> is not \<^verbatim>\<open>None\<close>, else
  \<^verbatim>\<open>None\<close>.
\<close>

definition kwarg :: "json \<Rightarrow> string \<Rightarrow> string \<Rightarrow> error + json" where
  "kwarg data p k =
     bind_r (dict_get data p) (\<lambda>v. if v \<noteq> JNull then getitem data k else Inr JNull)"

definition Status_FromJSON :: "json \<Rightarrow> error + Status" where
  "Status_FromJSON data =
     bind_r (kwarg data ''text'' ''text'') (\<lambda>t.
     bind_r (getitem data ''presence'') (\<lambda>p.
     bind_r (Presence_of p) (\<lambda>pr.
     Inr \<lparr>presence = pr, status_text = t\<rparr>)))"

text \<open>
  The part of \<^verbatim>\<open>User.FromJSON\<close> before the object is created: the attributes, still
  waiting for the identity of the new object.
\<close>

definition User_fields :: "json \<Rightarrow> error + (nat \<Rightarrow> User)" where
  "User_fields data =
     bind_r (kwarg data ''badges'' ''badges'') (\<lambda>badges.
     bind_r (kwarg data ''online'' ''online'') (\<lambda>online.
     bind_r (bind_r (dict_get data ''relationship'') (\<lambda>v.
               if v \<noteq> JNull
               then bind_r (getitem data ''relationship'') (\<lambda>x.
                    bind_r (Relationship_of x) (\<lambda>r. Inr (Some r)))
               else Inr None)) (\<lambda>relationship.
     bind_r (bind_r (dict_get data ''status'') (\<lambda>v.
               if v \<noteq> JNull
               then bind_r (getitem data ''status'') (\<lambda>x.
                    bind_r (Status_FromJSON x) (\<lambda>st. Inr (Some st)))
               else Inr None)) (\<lambda>status.
     bind_r (bind_r (dict_get data ''bot'') (\<lambda>v.
               if v \<noteq> JNull
               then bind_r (getitem data ''bot'') (\<lambda>b.
                    bind_r (getitem b ''owner'') (\<lambda>ow. Inr (Some \<lparr>ownerID = ow\<rparr>)))
               else Inr None)) (\<lambda>bot.
     bind_r (getitem data ''_id'') (\<lambda>i.
     bind_r (getitem data ''username'') (\<lambda>username.
     Inr (\<lambda>n. \<lparr>oid = n, u_id = i, u_username = username, u_badges = badges,
                u_online = online, u_relationship = relationship, u_status = status,
                u_flags = JNull, u_bot = bot\<rparr>))))))))"

definition User_FromJSON :: "json \<Rightarrow> world \<Rightarrow> (error + User) \<times> world" where
  "User_FromJSON data w =
     (case User_fields data of
        Inl e \<Rightarrow> (Inl e, w)
      | Inr mk \<Rightarrow> (Inr (mk (next_oid w)), w\<lparr>next_oid := Suc (next_oid w)\<rparr>))"

text \<open>
  \<^verbatim>\<open>User.FromID(id, token)\<close>. The argument is whatever the caller read from a payload;
  \<^verbatim>\<open>"/users/" + id\<close> needs a string. The client is new, so not closed. When the request
  raises, \<^verbatim>\<open>client.Close()\<close> is not reached.
\<close>

definition User_FromID :: "env \<Rightarrow> json \<Rightarrow> string \<Rightarrow> world \<Rightarrow> (error + User) \<times> world" where
  "User_FromID E i tok w =
     (case i of
        JStr s \<Rightarrow>
          (case do_request E HTTPClient_init
                  (AddAuthentication \<lparr>meth = GET, url = ''/users/'' @ s, body = None, auth = None\<rparr> tok) w of
             (Inl e, w1) \<Rightarrow> (Inl e, w1)
           | (Inr result, w1) \<Rightarrow> User_FromJSON result w1)
      | _ \<Rightarrow> (Inl TypeError, w))"

text \<open>
  Reading an attribute of a \<^verbatim>\<open>User\<close> object by name: the instance has the eight
  attributes of \<^verbatim>\<open>__init__\<close>, and any other data attribute is an \<^verbatim>\<open>AttributeError\<close>.
\<close>

datatype attr =
    AJson json
  | ARelationship "Relationship option"
  | AStatus "Status option"
  | ABot "Bot option"

definition User_getattr :: "User \<Rightarrow> string \<Rightarrow> error + attr" where
  "User_getattr u a =
     (if a = ''id'' then Inr (AJson (u_id u))
      else if a = ''username'' then Inr (AJson (u_username u))
      else if a = ''badges'' then Inr (AJson (u_badges u))
      else if a = ''online'' then Inr (AJson (u_online u))
      else if a = ''relationship'' then Inr (ARelationship (u_relationship u))
      else if a = ''status'' then Inr (AStatus (u_status u))
      else if a = ''flags'' then Inr (AJson (u_flags u))
      else if a = ''bot'' then Inr (ABot (u_bot u))
      else Inl (AttributeError a))"

text \<open>\<^verbatim>\<open>==\<close> between an attribute and a JSON value (on numbers: equal integers).\<close>

definition attr_eq :: "attr \<Rightarrow> json \<Rightarrow> bool" where
  "attr_eq a j = (case a of AJson v \<Rightarrow> v = j | _ \<Rightarrow> False)"

section \<open>Channels (\<^verbatim>\<open>pyvolt/structs/channels.py\<close>)\<close>

text \<open>
  One constructor for each class that \<^verbatim>\<open>Channel.FromJSON\<close> instantiates, with the
  attributes of its \<^verbatim>\<open>__init__\<close> chain in that order; the first is always
  \<^verbatim>\<open>channelID\<close>. The attribute \<^verbatim>\<open>session\<close>, a reference back to the session, is not
  kept: nothing modelled here reads it.
\<close>

datatype Channel =
    SavedMessages json User
  | DirectMessage json json "User list" json
  | Group json json "User list" "User option" json json json json
  | TextChannel json json json json json json json
  | VoiceChannel json json json json json json

fun channelID :: "Channel \<Rightarrow> json" where
  "channelID (SavedMessages i u) = i"
| "channelID (DirectMessage i a rs lm) = i"
| "channelID (Group i n rs ow d lm p ns) = i"
| "channelID (TextChannel i sv n d dp ns lm) = i"
| "channelID (VoiceChannel i sv n d dp ns) = i"

text \<open>
  Modelled from the spec: the session class is not among the sources. The code reads
  \<^verbatim>\<open>session.users\<close>, \<^verbatim>\<open>session.channels\<close> and \<^verbatim>\<open>session.token\<close>; the spec's entity cache
  is a mapping from entity ID to entity, users and channels in separate namespaces.
\<close>

record session =
  users :: "pykey \<rightharpoonup> User"
  channels :: "pykey \<rightharpoonup> Channel"
  token :: string

text \<open>
  The three statements that \<^verbatim>\<open>Channel.FromJSON\<close> repeats for each user reference:
  \<^verbatim>\<open>user = session.users.get(userID)\<close>, and when that is \<^verbatim>\<open>None\<close>,
  \<^verbatim>\<open>user = await User.FromID(userID, session.token)\<close>.
\<close>

definition resolve_user :: "env \<Rightarrow> session \<Rightarrow> json \<Rightarrow> world \<Rightarrow> (error + User) \<times> world" where
  "resolve_user E s userID w =
     (case hash_key userID of
        Inl e \<Rightarrow> (Inl e, w)
      | Inr k \<Rightarrow>
          (case users s k of
             None \<Rightarrow> User_FromID E userID (token s) w
           | Some u \<Rightarrow> (Inr u, w)))"

text \<open>The loop over the recipients in the \<^verbatim>\<open>DirectMessage\<close> case.\<close>

fun dm_loop :: "env \<Rightarrow> session \<Rightarrow> json list \<Rightarrow> User list \<Rightarrow> world \<Rightarrow> (error + User list) \<times> world" where
  "dm_loop E s [] recipients w = (Inr recipients, w)"
| "dm_loop E s (userID # rest) recipients w =
     (case resolve_user E s userID w of
        (Inl e, w1) \<Rightarrow> (Inl e, w1)
      | (Inr user, w1) \<Rightarrow> dm_loop E s rest (recipients @ [user]) w1)"

text \<open>
  The loop over the recipients in the \<^verbatim>\<open>Group\<close> case, with the test
  \<^verbatim>\<open>user.userID == data["owner"]\<close>.
\<close>

fun group_loop ::
  "env \<Rightarrow> session \<Rightarrow> json \<Rightarrow> json list \<Rightarrow> User list \<Rightarrow> User option \<Rightarrow> world
   \<Rightarrow> (error + User list \<times> User option) \<times> world" where
  "group_loop E s data [] recipients owner w = (Inr (recipients, owner), w)"
| "group_loop E s data (userID # rest) recipients owner w =
     (case resolve_user E s userID w of
        (Inl e, w1) \<Rightarrow> (Inl e, w1)
      | (Inr user, w1) \<Rightarrow>
          (case User_getattr user ''userID'' of
             Inl e \<Rightarrow> (Inl e, w1)
           | Inr a \<Rightarrow>
               (case getitem data ''owner'' of
                  Inl e \<Rightarrow> (Inl e, w1)
                | Inr ow \<Rightarrow>
                    group_loop E s data rest (recipients @ [user])
                      (if attr_eq a ow then Some user else owner) w1)))"

text \<open>
  The \<^verbatim>\<open>match\<close> statement of \<^verbatim>\<open>Channel.FromJSON\<close>: the value of the variable
  \<^verbatim>\<open>channel\<close> after it, \<open>None\<close> when no case matched.
\<close>

definition match_channel_type ::
  "env \<Rightarrow> json \<Rightarrow> json \<Rightarrow> session \<Rightarrow> world \<Rightarrow> (error + Channel option) \<times> world" where
  "match_channel_type E t data s w =
     (if t = JStr ''SavedMessages'' then
        (case getitem data ''user'' of
           Inl e \<Rightarrow> (Inl e, w)
         | Inr uid \<Rightarrow>
             (case resolve_user E s uid w of
                (Inl e, w1) \<Rightarrow> (Inl e, w1)
              | (Inr user, w1) \<Rightarrow>
                  (bind_r (getitem data ''_id'') (\<lambda>i. Inr (Some (SavedMessages i user))), w1)))
      else if t = JStr ''DirectMessage'' then
        (case bind_r (kwarg data ''last_message_id'' ''last_message_id'') (\<lambda>lm.
              bind_r (getitem data ''recipients'') (\<lambda>r.
              bind_r (iter r) (\<lambda>ids. Inr (lm, ids)))) of
           Inl e \<Rightarrow> (Inl e, w)
         | Inr (lm, ids) \<Rightarrow>
             (case dm_loop E s ids [] w of
                (Inl e, w1) \<Rightarrow> (Inl e, w1)
              | (Inr recipients, w1) \<Rightarrow>
                  (bind_r (getitem data ''_id'') (\<lambda>i.
                   bind_r (getitem data ''active'') (\<lambda>a.
                   Inr (Some (DirectMessage i a recipients lm)))), w1)))
      else if t = JStr ''Group'' then
        (case bind_r (kwarg data ''description'' ''description'') (\<lambda>d.
              bind_r (kwarg data ''last_message_id'' ''last_message_id'') (\<lambda>lm.
              bind_r (kwarg data ''permissions'' ''permissions'') (\<lambda>p.
              bind_r (kwarg data ''nsfw'' ''nsfw'') (\<lambda>ns.
              bind_r (getitem data ''recipients'') (\<lambda>r.
              bind_r (iter r) (\<lambda>ids. Inr (d, lm, p, ns, ids))))))) of
           Inl e \<Rightarrow> (Inl e, w)
         | Inr (d, lm, p, ns, ids) \<Rightarrow>
             (case group_loop E s data ids [] None w of
                (Inl e, w1) \<Rightarrow> (Inl e, w1)
              | (Inr (recipients, owner), w1) \<Rightarrow>
                  (bind_r (getitem data ''_id'') (\<lambda>i.
                   bind_r (getitem data ''name'') (\<lambda>n.
                   Inr (Some (Group i n recipients owner d lm p ns)))), w1)))
      else if t = JStr ''TextChannel'' then
        (bind_r (kwarg data ''description'' ''description'') (\<lambda>d.
         bind_r (kwarg data ''default_permissions'' ''defaultPermissions'') (\<lambda>dp.
         bind_r (kwarg data ''nsfw'' ''nsfw'') (\<lambda>ns.
         bind_r (kwarg data ''last_message_id'' ''last_message_id'') (\<lambda>lm.
         bind_r (getitem data ''_id'') (\<lambda>i.
         bind_r (getitem data ''server'') (\<lambda>sv.
         bind_r (getitem data ''name'') (\<lambda>n.
         Inr (Some (TextChannel i sv n d dp ns lm))))))))), w)
      else if t = JStr ''VoiceChannel'' then
        (bind_r (kwarg data ''description'' ''description'') (\<lambda>d.
         bind_r (kwarg data ''default_permissions'' ''defaultPermissions'') (\<lambda>dp.
         bind_r (kwarg data ''nsfw'' ''nsfw'') (\<lambda>ns.
         bind_r (getitem data ''_id'') (\<lambda>i.
         bind_r (getitem data ''server'') (\<lambda>sv.
         bind_r (getitem data ''name'') (\<lambda>n.
         Inr (Some (VoiceChannel i sv n d dp ns)))))))), w)
      else (Inr None, w))"

text \<open>
  \<^verbatim>\<open>Channel.FromJSON\<close>. After the \<^verbatim>\<open>match\<close>, \<^verbatim>\<open>session.channels[channel.channelID] =
  channel\<close> reads an attribute of \<^verbatim>\<open>channel\<close>, which fails on \<^verbatim>\<open>None\<close>, and needs a
  hashable key. An exception leaves the session as it was.
\<close>

definition Channel_FromJSON ::
  "env \<Rightarrow> json \<Rightarrow> session \<Rightarrow> world \<Rightarrow> (error + Channel) \<times> world \<times> session" where
  "Channel_FromJSON E data s w =
     (case getitem data ''channel_type'' of
        Inl e \<Rightarrow> (Inl e, w, s)
      | Inr t \<Rightarrow>
          (case match_channel_type E t data s w of
             (Inl e, w1) \<Rightarrow> (Inl e, w1, s)
           | (Inr None, w1) \<Rightarrow> (Inl (AttributeError ''channelID''), w1, s)
           | (Inr (Some channel), w1) \<Rightarrow>
               (case hash_key (channelID channel) of
                  Inl e \<Rightarrow> (Inl e, w1, s)
                | Inr k \<Rightarrow> (Inr channel, w1, s\<lparr>channels := (channels s)(k \<mapsto> channel)\<rparr>))))"

text \<open>
  \<^verbatim>\<open>Channel.FromID\<close>; the bare \<^verbatim>\<open>return\<close> after the test of \<^verbatim>\<open>result.get("type")\<close>
  returns \<^verbatim>\<open>None\<close>. When the request raises, \<^verbatim>\<open>client.Close()\<close> is not reached.
\<close>

definition Channel_FromID ::
  "env \<Rightarrow> string \<Rightarrow> session \<Rightarrow> world \<Rightarrow> (error + Channel option) \<times> world \<times> session" where
  "Channel_FromID E cid s w =
     (case channels s (KStr cid) of
        Some c \<Rightarrow> (Inr (Some c), w, s)
      | None \<Rightarrow>
          (case do_request E HTTPClient_init
                  (AddAuthentication \<lparr>meth = GET, url = ''/channels/'' @ cid, body = None, auth = None\<rparr>
                     (token s)) w of
             (Inl e, w1) \<Rightarrow> (Inl e, w1, s)
           | (Inr result, w1) \<Rightarrow>
               (case dict_get result ''type'' of
                  Inl e \<Rightarrow> (Inl e, w1, s)
                | Inr ty \<Rightarrow>
                    if ty \<noteq> JNull then (Inr None, w1, s)
                    else (case Channel_FromJSON E result s w1 of
                            (Inl e, w2, s2) \<Rightarrow> (Inl e, w2, s2)
                          | (Inr c, w2, s2) \<Rightarrow> (Inr (Some c), w2, s2)))))"

section \<open>Scenarios\<close>

text \<open>
  Concrete environments, sessions and payloads, used where a statement is evaluated on
  an input. \<open>env_ok\<close> answers \<^verbatim>\<open>GET /\<close> with the gateway URL, a user request for U1 or
  U2 with that user, and anything else with an error payload; every websocket connects.
  \<open>env_down\<close> is a transport on which every request raises.
\<close>

definition user_json :: "string \<Rightarrow> string \<Rightarrow> json" where
  "user_json i n = JObj [(''_id'', JStr i), (''username'', JStr n)]"

definition env_ok :: env where
  "env_ok = \<lparr>http = (\<lambda>c r.
       if url r = ''/'' then Inr (JObj [(''ws'', JStr ''wss://example/ws'')])
       else if url r = ''/users/U1'' then Inr (user_json ''U1'' ''alice'')
       else if url r = ''/users/U2'' then Inr (user_json ''U2'' ''bob'')
       else Inr (JObj [(''type'', JStr ''NotFound'')])),
     ws_connect = (\<lambda>u. None)\<rparr>"

definition env_down :: env where
  "env_down = \<lparr>http = (\<lambda>c r. Inl (TransportError ''unreachable'')), ws_connect = (\<lambda>u. None)\<rparr>"

definition alice :: User where
  "alice = \<lparr>oid = 0, u_id = JStr ''U1'', u_username = JStr ''alice'', u_badges = JNull,
     u_online = JNull, u_relationship = None, u_status = None, u_flags = JNull, u_bot = None\<rparr>"

definition session_empty :: session where
  "session_empty = \<lparr>users = Map.empty, channels = Map.empty, token = ''tok''\<rparr>"

definition session_cached :: session where
  "session_cached = \<lparr>users = [KStr ''U1'' \<mapsto> alice], channels = Map.empty, token = ''tok''\<rparr>"

definition world_one :: world where
  "world_one = \<lparr>trace = [], next_oid = 1\<rparr>"

definition group_payload :: json where
  "group_payload = JObj [(''channel_type'', JStr ''Group''), (''_id'', JStr ''C1''),
     (''name'', JStr ''team''), (''owner'', JStr ''U1''),
     (''recipients'', JArr [JStr ''U1'', JStr ''U2''])]"

definition saved_payload :: json where
  "saved_payload = JObj [(''channel_type'', JStr ''SavedMessages''), (''_id'', JStr ''C0''),
     (''user'', JStr ''U1'')]"

text \<open>
  A DirectMessage payload with two recipients, and \<open>env_half\<close>, a transport that
  answers the request for that channel and on which every other request raises.
\<close>

definition dm_payload :: json where
  "dm_payload = JObj [(''channel_type'', JStr ''DirectMessage''), (''_id'', JStr ''C2''),
     (''active'', JBool True), (''recipients'', JArr [JStr ''U1'', JStr ''U2''])]"

definition env_half :: env where
  "env_half = \<lparr>http = (\<lambda>c r.
       if url r = ''/channels/C2'' then Inr dm_payload
       else Inl (TransportError ''unreachable'')),
     ws_connect = (\<lambda>u. None)\<rparr>"

definition unknown_payload :: json where
  "unknown_payload = JObj [(''channel_type'', JStr ''Category''), (''_id'', JStr ''C9'')]"

definition user_request :: "string \<Rightarrow> string \<Rightarrow> Request" where
  "user_request n tok = \<lparr>meth = GET, url = ''/users/'' @ n, body = None, auth = Some tok\<rparr>"

definition channel_request :: "string \<Rightarrow> string \<Rightarrow> Request" where
  "channel_request c tok = \<lparr>meth = GET, url = ''/channels/'' @ c, body = None, auth = Some tok\<rparr>"

text \<open>\<^verbatim>\<open>connect()\<close> on a new gateway, in \<open>env_ok\<close>.\<close>

definition connected0 :: "(error + unit) \<times> world \<times> Gateway" where
  "connected0 = Connect env_ok (world_init, Gateway_init)"

text \<open>
  \<^verbatim>\<open>connect(); close()\<close>, then the heartbeat thread wakes on its stop event and ends,
  then \<^verbatim>\<open>connect()\<close> again.
\<close>

definition reconnected0 :: "(error + unit) \<times> world \<times> Gateway" where
  "reconnected0 = Connect env_ok (run_step (snd (Close (snd connected0))))"

text \<open>The number of sockets opened so far.\<close>

definition is_WSConnect :: "effect \<Rightarrow> bool" where
  "is_WSConnect e = (case e of WSConnect u \<Rightarrow> True | _ \<Rightarrow> False)"

definition sockets_opened :: "world \<Rightarrow> nat" where
  "sockets_opened w = length (filter is_WSConnect (trace w))"

section \<open>Properties of the gateway\<close>

lemmas gateway_defs = Close_def Connect_def Send_def Authenticate_def GetWebsocketURL_def
  do_request_def ws_open_def emit_def Thread_start_def HTTPClient_Close_def HTTPClient_init_def
  Gateway_init_def GatewayKeepAlive_init_def heartbeat_running_def run_step_def GetPayload_def

lemma connected0_eval:
  "connected0 = (Inr (),
     \<lparr>trace = [HTTP \<lparr>meth = GET, url = ''/'', body = None, auth = None\<rparr>,
               WSConnect (JStr ''wss://example/ws'')], next_oid = 0\<rparr>,
     \<lparr>client = \<lparr>closed = False\<rparr>,
      keepAlive = \<lparr>interval = 20, daemon = True, stopEvent = False, thread = Running\<rparr>,
      websocket = OPEN\<rparr>)"
  by (simp add: connected0_def env_ok_def gateway_defs world_init_def)

text \<open>
  The first \<^verbatim>\<open>connect()\<close> of a gateway: one \<^verbatim>\<open>GET /\<close>, one socket opened to the value
  of the field \<^verbatim>\<open>ws\<close>, the stop event cleared and the thread started.
\<close>

lemma Connect_new_thread:
  assumes "\<not> ws_open g" and "thread (keepAlive g) = Initial"
    and "http E (client g) \<lparr>meth = GET, url = ''/'', body = None, auth = None\<rparr> = Inr result"
    and "getitem result ''ws'' = Inr u" and "ws_connect E u = None"
  shows "Connect E (w, g) =
    (Inr (),
     w\<lparr>trace := trace w @ [HTTP \<lparr>meth = GET, url = ''/'', body = None, auth = None\<rparr>, WSConnect u]\<rparr>,
     g\<lparr>websocket := OPEN, keepAlive := (keepAlive g)\<lparr>stopEvent := False, thread := Running\<rparr>\<rparr>)"
  using assms
  by (simp add: Connect_def GetWebsocketURL_def do_request_def Thread_start_def ws_open_def emit_def)

text \<open>
  Once the heartbeat thread was started, no later \<^verbatim>\<open>connect()\<close> on a closed socket
  returns normally, whatever the environment answers.
\<close>

lemma Connect_started_thread:
  assumes "\<not> ws_open g" and "thread (keepAlive g) \<noteq> Initial"
  shows "fst (Connect E (w, g)) \<noteq> Inr ()"
  using assms
  by (auto simp add: Connect_def GetWebsocketURL_def do_request_def Thread_start_def ws_open_def
      split: prod.splits sum.splits option.splits)

text \<open>
  C3, counterexample. \<^verbatim>\<open>connect()\<close> succeeds, the connection is lost, then \<^verbatim>\<open>close()\<close>
  is called: the socket is closed and \<^verbatim>\<open>close()\<close> returns, but the heartbeat is still
  running, because \<^verbatim>\<open>Close\<close> sets the stop event only inside
  \<^verbatim>\<open>if self.websocket.open\<close>.
\<close>

theorem heartbeat_left_running:
  "fst connected0 = Inr ()
   \<and> \<not> ws_open (connection_lost (snd (snd connected0)))
   \<and> fst (Close (fst (snd connected0), connection_lost (snd (snd connected0)))) = Inr ()
   \<and> heartbeat_running (snd (snd (Close (fst (snd connected0), connection_lost (snd (snd connected0))))))"
  by (simp add: connected0_eval connection_lost_def Close_def ws_open_def heartbeat_running_def
      HTTPClient_Close_def)

text \<open>
  C3, as amended. For every environment, \<^verbatim>\<open>connect(); close()\<close> on a new gateway,
  with the connection not lost between the two calls, returns with the socket not open
  and the heartbeat not running, whether \<^verbatim>\<open>connect()\<close> succeeded or raised. In general \<^verbatim>\<open>close()\<close> stops the heartbeat when
  the socket is open at the call. When the socket is already closed at the call,
  \<^verbatim>\<open>close()\<close> leaves the heartbeat thread and its stop event as they were; the
  thread's next turn then ends it, through the \<^verbatim>\<open>ClosedSocketException\<close> of
  \<^verbatim>\<open>Send\<close> or through the stop event.
\<close>

theorem connect_close_heartbeat:
  "fst (Close (snd (Connect E (w, Gateway_init)))) = Inr ()
   \<and> \<not> ws_open (snd (snd (Close (snd (Connect E (w, Gateway_init))))))
   \<and> \<not> heartbeat_running (snd (snd (Close (snd (Connect E (w, Gateway_init))))))
   \<and> (ws_open g \<longrightarrow>
        \<not> ws_open (snd (snd (Close (w, g))))
        \<and> stopEvent (keepAlive (snd (snd (Close (w, g)))))
        \<and> \<not> heartbeat_running (snd (snd (Close (w, g)))))
   \<and> (\<not> ws_open g \<longrightarrow>
        \<not> ws_open (snd (snd (Close (w, g))))
        \<and> keepAlive (snd (snd (Close (w, g)))) = keepAlive g
        \<and> thread (keepAlive (snd (run_step (w, g)))) = Finished)"
  by (auto simp add: gateway_defs Let_def split: prod.splits sum.splits option.splits)

text \<open>C3, witness: an open socket after \<^verbatim>\<open>connect()\<close>, and one that was lost.\<close>

theorem connect_close_heartbeat_witness:
  "ws_open (snd (snd connected0))
   \<and> \<not> heartbeat_running (snd (snd (Close (snd connected0))))
   \<and> \<not> ws_open (connection_lost (snd (snd connected0)))
   \<and> keepAlive (snd (snd (Close (world_init, connection_lost (snd (snd connected0))))))
       = keepAlive (connection_lost (snd (snd connected0)))"
  using connect_close_heartbeat [where E = env_ok and w = "fst (snd connected0)"
      and g = "snd (snd connected0)"]
    connect_close_heartbeat [where E = env_ok and w = world_init
      and g = "connection_lost (snd (snd connected0))"]
  by (simp add: connected0_eval ws_open_def connection_lost_def)

text \<open>
  C4, at the failing input. \<^verbatim>\<open>connect(); close()\<close>, the heartbeat thread ends on its
  stop event, then \<^verbatim>\<open>connect()\<close> again from the closed state: the second
  \<^verbatim>\<open>connect()\<close> fetches the URL, opens the socket and clears the stop event, then
  \<^verbatim>\<open>self.keepAlive.start()\<close> raises \<^verbatim>\<open>RuntimeError\<close>, as a thread object starts only
  once. The call does not return normally and leaves an open socket with no heartbeat.
  The same happens when the thread has not yet ended.
\<close>

theorem reconnect_runtime_error:
  "fst connected0 = Inr ()
   \<and> fst (Close (snd connected0)) = Inr ()
   \<and> \<not> ws_open (snd (run_step (snd (Close (snd connected0)))))
   \<and> fst reconnected0 = Inl RuntimeError
   \<and> ws_open (snd (snd reconnected0))
   \<and> \<not> heartbeat_running (snd (snd reconnected0))
   \<and> fst (Connect env_ok (snd (Close (snd connected0)))) = Inl RuntimeError"
  by (simp add: reconnected0_def connected0_eval env_ok_def gateway_defs Let_def)

text \<open>
  C5. \<^verbatim>\<open>Send\<close> and \<^verbatim>\<open>Authenticate\<close> raise \<^verbatim>\<open>ClosedSocketException\<close> exactly when the
  socket is not open, and then send nothing and change nothing; when it is open they
  send the frame (for \<^verbatim>\<open>Authenticate\<close> the frame with type "Authenticate" and the
  token) and return normally.
\<close>

theorem send_closed_socket:
  "(fst (Send (w, g) data) = Inl ClosedSocketException) = (\<not> ws_open g)
   \<and> (fst (Authenticate (w, g) tok) = Inl ClosedSocketException) = (\<not> ws_open g)
   \<and> (ws_open g \<longrightarrow>
        Send (w, g) data = (Inr (), emit (WSSend data) w, g)
        \<and> Authenticate (w, g) tok =
            (Inr (), emit (WSSend (JObj [(''type'', JStr ''Authenticate''), (''token'', JStr tok)])) w, g))
   \<and> (\<not> ws_open g \<longrightarrow>
        Send (w, g) data = (Inl ClosedSocketException, w, g)
        \<and> Authenticate (w, g) tok = (Inl ClosedSocketException, w, g))"
  by (simp add: Send_def Authenticate_def)

text \<open>C5, witness: the connected gateway, and a new one whose socket is not open.\<close>

theorem send_closed_socket_witness:
  "ws_open (snd (snd connected0))
   \<and> Send (snd connected0) GetPayload
       = (Inr (), emit (WSSend GetPayload) (fst (snd connected0)), snd (snd connected0))
   \<and> \<not> ws_open Gateway_init
   \<and> Authenticate (world_init, Gateway_init) ''tok''
       = (Inl ClosedSocketException, world_init, Gateway_init)"
  using send_closed_socket [where w = "fst (snd connected0)" and g = "snd (snd connected0)"
      and data = GetPayload and tok = "''tok''"]
    send_closed_socket [where w = world_init and g = Gateway_init and data = GetPayload
      and tok = "''tok''"]
  by (simp add: connected0_eval ws_open_def Gateway_init_def)

text \<open>
  What one \<^verbatim>\<open>connect()\<close> does to the socket: nothing when it is open; when the call
  returns normally the socket is open; and it opens one socket exactly when it turns a
  socket that was not open into an open one.
\<close>

lemma Connect_open:
  assumes "ws_open g"
  shows "Connect E (w, g) = (Inr (), w, g)"
  using assms by (simp add: Connect_def)

lemma Connect_Inr_open:
  assumes "fst (Connect E (w, g)) = Inr ()"
  shows "ws_open (snd (snd (Connect E (w, g))))"
  using assms
  by (auto simp add: Connect_def GetWebsocketURL_def do_request_def Thread_start_def ws_open_def
      Let_def split: prod.splits sum.splits option.splits if_splits)

lemma Connect_sockets:
  "sockets_opened (fst (snd (Connect E (w, g)))) =
     (if \<not> ws_open g \<and> ws_open (snd (snd (Connect E (w, g))))
      then sockets_opened w + 1 else sockets_opened w)"
  by (auto simp add: Connect_def GetWebsocketURL_def do_request_def Thread_start_def ws_open_def
      emit_def sockets_opened_def is_WSConnect_def Let_def
      split: prod.splits sum.splits option.splits)

text \<open>
  C7. \<^verbatim>\<open>Connect\<close> on an open socket returns at once: no request, no socket, no change.
  So when a first \<^verbatim>\<open>connect()\<close> from a closed socket returned normally, a second one
  right after it is that no-op, and the two calls together opened exactly one socket.
  From any state and in any environment, two calls of \<^verbatim>\<open>connect()\<close> in a row open at
  most one socket.
\<close>

theorem connect_twice_one_socket:
  "(ws_open g \<longrightarrow> Connect E (w, g) = (Inr (), w, g))
   \<and> (\<not> ws_open g \<and> fst (Connect E (w, g)) = Inr () \<longrightarrow>
        Connect E (snd (Connect E (w, g))) = (Inr (), snd (Connect E (w, g)))
        \<and> sockets_opened (fst (snd (Connect E (snd (Connect E (w, g)))))) = sockets_opened w + 1)
   \<and> sockets_opened (fst (snd (Connect E (snd (Connect E (w, g)))))) \<le> sockets_opened w + 1"
proof -
  obtain r w1 g1 where first: "Connect E (w, g) = (r, w1, g1)"
    by (cases "Connect E (w, g)") auto
  have count1: "sockets_opened w1 = (if \<not> ws_open g \<and> ws_open g1 then sockets_opened w + 1
      else sockets_opened w)"
    using Connect_sockets [of E w g] first by simp
  have count2: "sockets_opened (fst (snd (Connect E (w1, g1)))) =
      (if \<not> ws_open g1 \<and> ws_open (snd (snd (Connect E (w1, g1))))
       then sockets_opened w1 + 1 else sockets_opened w1)"
    by (rule Connect_sockets)
  have noop: "Connect E (w1, g1) = (Inr (), w1, g1)" if "ws_open g1"
    using that by (rule Connect_open)
  have opened: "ws_open g1" if "r = Inr ()"
    using Connect_Inr_open [of E w g] first that by simp
  show ?thesis
    using first count1 count2 noop opened Connect_open [of g E w]
    by (cases "ws_open g1") auto
qed

text \<open>C7, witness: \<^verbatim>\<open>connect(); connect()\<close> on a new gateway.\<close>

theorem connect_twice_one_socket_witness:
  "\<not> ws_open Gateway_init \<and> fst connected0 = Inr ()
   \<and> ws_open (snd (snd connected0))
   \<and> Connect env_ok (snd connected0) = (Inr (), snd connected0)
   \<and> sockets_opened (fst (snd (Connect env_ok (snd connected0)))) = 1"
  using connect_twice_one_socket [where g = Gateway_init and E = env_ok and w = world_init,
      folded connected0_def]
    connect_twice_one_socket [where g = "snd (snd connected0)" and E = env_ok
      and w = "fst (snd connected0)"]
  by (simp add: connected0_eval ws_open_def sockets_opened_def is_WSConnect_def world_init_def
      Gateway_init_def)

text \<open>
  C8. \<^verbatim>\<open>Close\<close> never raises, and a second \<^verbatim>\<open>Close\<close> right after a first returns
  normally and changes nothing: the socket is not closed again, the stop event is not
  set again, and the HTTP client, closed again, stays closed.
\<close>

theorem close_idempotent:
  "fst (Close s) = Inr () \<and> Close (snd (Close s)) = (Inr (), snd (Close s))"
  by (simp add: Close_def Let_def ws_open_def HTTPClient_Close_def)

text \<open>
  C9. The payload of a tick is \<^verbatim>\<open>{"type": "Ping", "data": 0}\<close>; the interval of a new
  gateway's heartbeat is 20 and no operation changes it. A turn of the heartbeat loop
  whose stop event is not set waits for the interval, gives the payload to \<^verbatim>\<open>Send\<close>
  and waits for the result with timeout 10: on an open socket exactly that frame is
  sent, on a closed one \<^verbatim>\<open>Send\<close> raises and nothing is sent. A turn whose stop event
  is set only waits.
\<close>

theorem heartbeat_tick:
  "GetPayload = JObj [(''type'', JStr ''Ping''), (''data'', JInt 0)]
   \<and> interval (keepAlive Gateway_init) = 20
   \<and> interval (keepAlive (snd (snd (Connect E (w, g))))) = interval (keepAlive g)
   \<and> interval (keepAlive (snd (snd (Close (w, g))))) = interval (keepAlive g)
   \<and> interval (keepAlive (snd (run_step (w, g)))) = interval (keepAlive g)
   \<and> (\<not> stopEvent (keepAlive g) \<and> ws_open g \<longrightarrow>
        run_step (w, g) =
          (w\<lparr>trace := trace w @ [Wait (interval (keepAlive g)),
                                 WSSend (JObj [(''type'', JStr ''Ping''), (''data'', JInt 0)]),
                                 Result 10]\<rparr>, g))
   \<and> (\<not> stopEvent (keepAlive g) \<and> \<not> ws_open g \<longrightarrow>
        fst (Send (emit (Wait (interval (keepAlive g))) w, g) GetPayload) = Inl ClosedSocketException
        \<and> trace (fst (run_step (w, g))) = trace w @ [Wait (interval (keepAlive g)), Result 10])
   \<and> (stopEvent (keepAlive g) \<longrightarrow>
        trace (fst (run_step (w, g))) = trace w @ [Wait (interval (keepAlive g))])"
  by (auto simp add: gateway_defs Let_def split: prod.splits sum.splits option.splits)

text \<open>
  C9, witness: a turn on the connected gateway, on a new gateway, and after
  \<^verbatim>\<open>close()\<close>.
\<close>

theorem heartbeat_tick_witness:
  "\<not> stopEvent (keepAlive (snd (snd connected0))) \<and> ws_open (snd (snd connected0))
   \<and> trace (fst (run_step (snd connected0))) =
       [HTTP \<lparr>meth = GET, url = ''/'', body = None, auth = None\<rparr>,
        WSConnect (JStr ''wss://example/ws''), Wait 20,
        WSSend (JObj [(''type'', JStr ''Ping''), (''data'', JInt 0)]), Result 10]
   \<and> \<not> stopEvent (keepAlive Gateway_init) \<and> \<not> ws_open Gateway_init
   \<and> trace (fst (run_step (world_init, Gateway_init))) = [Wait 20, Result 10]
   \<and> stopEvent (keepAlive (snd (snd (Close (snd connected0)))))
   \<and> trace (fst (run_step (world_init, snd (snd (Close (snd connected0)))))) = [Wait 20]"
  using heartbeat_tick [where E = env_ok and w = "fst (snd connected0)" and g = "snd (snd connected0)"]
    heartbeat_tick [where E = env_ok and w = world_init and g = Gateway_init]
    heartbeat_tick [where E = env_ok and w = world_init and g = "snd (snd (Close (snd connected0)))"]
  by (simp add: connected0_eval ws_open_def Gateway_init_def GatewayKeepAlive_init_def
      HTTPClient_init_def world_init_def Close_def HTTPClient_Close_def)

section \<open>Properties of the entity decoders\<close>

lemmas decode_defs = Channel_FromJSON_def match_channel_type_def resolve_user_def User_FromID_def
  User_FromJSON_def User_fields_def kwarg_def bind_r_def do_request_def emit_def
  AddAuthentication_def HTTPClient_init_def User_getattr_def attr_eq_def

text \<open>No path of \<^verbatim>\<open>Channel.FromJSON\<close> writes to \<^verbatim>\<open>session.users\<close>.\<close>

lemma Channel_FromJSON_users:
  "users (snd (snd (Channel_FromJSON E data s w))) = users s"
  by (simp add: Channel_FromJSON_def split: prod.splits sum.splits option.splits)

text \<open>
  The loop of the \<^verbatim>\<open>Group\<close> case raises in its first turn: either the user cannot be
  resolved, or \<^verbatim>\<open>user.userID\<close> is read, an attribute that no \<^verbatim>\<open>User\<close> has.
\<close>

lemma group_loop_raises:
  "isl (fst (group_loop E s data (userID # rest) recipients owner w))"
  by (simp add: User_getattr_def split: prod.splits sum.splits)

lemma User_FromID_trace:
  "trace (snd (User_FromID E (JStr n) tok w)) = trace w @ [HTTP (user_request n tok)]"
  by (simp add: User_FromID_def User_FromJSON_def do_request_def emit_def AddAuthentication_def
      user_request_def split: prod.splits sum.splits)

lemma bind_r_Inr_iff:
  "(bind_r m f = Inr y) = (\<exists>x. m = Inr x \<and> f x = Inr y)"
  by (cases m) (simp_all add: bind_r_def)

lemma User_fields_Inr_id:
  assumes "User_fields data = Inr mk"
  shows "\<exists>i. getitem data ''_id'' = Inr i"
  using assms unfolding User_fields_def bind_r_Inr_iff by blast

lemma User_fields_no_id:
  assumes "isl (getitem data ''_id'')"
  shows "isl (User_fields data)"
proof (cases "User_fields data")
  case (Inl e)
  then show ?thesis by simp
next
  case (Inr mk)
  from User_fields_Inr_id [OF this] assms show ?thesis by auto
qed

text \<open>
  An exception raised while a user reference is resolved leaves the loop over the
  recipients at that turn, leaves the \<^verbatim>\<open>match\<close> statement and \<^verbatim>\<open>Channel.FromJSON\<close>,
  and leaves \<^verbatim>\<open>Channel.FromID\<close> when the decoding was its own.
\<close>

lemma dm_loop_raises:
  assumes "dm_loop E s pre recipients w = (Inr rs, w1)"
    and "resolve_user E s userID w1 = (Inl e, w2)"
  shows "dm_loop E s (pre @ userID # rest) recipients w = (Inl e, w2)"
  using assms
proof (induction pre arbitrary: recipients w)
  case Nil
  then show ?case by simp
next
  case (Cons x pre)
  then show ?case
    by (cases "resolve_user E s x w") (auto split: sum.splits)
qed

lemma match_SavedMessages_raises:
  assumes "getitem data ''user'' = Inr uid" and "resolve_user E s uid w = (Inl e, w1)"
  shows "match_channel_type E (JStr ''SavedMessages'') data s w = (Inl e, w1)"
  using assms by (simp add: match_channel_type_def)

lemma match_DirectMessage_raises:
  assumes "kwarg data ''last_message_id'' ''last_message_id'' = Inr lm"
    and "getitem data ''recipients'' = Inr r" and "iter r = Inr (pre @ userID # rest)"
    and "dm_loop E s pre [] w = (Inr rs, w1)" and "resolve_user E s userID w1 = (Inl e, w2)"
  shows "match_channel_type E (JStr ''DirectMessage'') data s w = (Inl e, w2)"
  using assms dm_loop_raises [of E s pre "[]" w rs w1 userID e w2 rest]
  by (simp add: match_channel_type_def bind_r_def)

lemma match_Group_raises:
  assumes "kwarg data ''description'' ''description'' = Inr d"
    and "kwarg data ''last_message_id'' ''last_message_id'' = Inr lm"
    and "kwarg data ''permissions'' ''permissions'' = Inr p"
    and "kwarg data ''nsfw'' ''nsfw'' = Inr ns"
    and "getitem data ''recipients'' = Inr r" and "iter r = Inr (userID # rest)"
    and "resolve_user E s userID w = (Inl e, w1)"
  shows "match_channel_type E (JStr ''Group'') data s w = (Inl e, w1)"
  using assms by (simp add: match_channel_type_def bind_r_def)

lemma Channel_FromJSON_raises:
  assumes "getitem data ''channel_type'' = Inr t" and "match_channel_type E t data s w = (Inl e, w1)"
  shows "Channel_FromJSON E data s w = (Inl e, w1, s)"
  using assms by (simp add: Channel_FromJSON_def)

lemma Channel_FromID_decode_raises:
  assumes "channels s (KStr c) = None"
    and "http E HTTPClient_init (channel_request c (token s)) = Inr result"
    and "dict_get result ''type'' = Inr JNull"
    and "Channel_FromJSON E result s (emit (HTTP (channel_request c (token s))) w) = (Inl e, w2, s2)"
  shows "Channel_FromID E c s w = (Inl e, w2, s2)"
  using assms
  by (simp add: Channel_FromID_def do_request_def AddAuthentication_def channel_request_def)

text \<open>
  C1, at the failing input. The Group payload with recipients U1, U2 and owner U1,
  decoded in a session whose user cache holds U1: the first turn of the loop finds U1
  in the cache and then reads \<^verbatim>\<open>user.userID\<close>. \<^verbatim>\<open>User.__init__\<close> names the attribute
  \<^verbatim>\<open>id\<close>, so the read raises \<^verbatim>\<open>AttributeError\<close>: no Group is built, nothing is fetched
  and nothing is stored.
\<close>

theorem group_owner_attribute_error:
  "Channel_FromJSON env_ok group_payload session_cached world_one
   = (Inl (AttributeError ''userID''), world_one, session_cached)"
  by (simp add: decode_defs env_ok_def group_payload_def session_cached_def world_one_def alice_def)

text \<open>
  C2, counterexample. U1 is not cached; decoding a SavedMessages payload of user U1
  fetches \<^verbatim>\<open>/users/U1\<close> and returns the channel with the decoded user, and the
  session's user cache still has no entry for U1: resolving U1 again sends the same
  request a second time.
\<close>

theorem user_cache_not_filled:
  "users session_empty (KStr ''U1'') = None
   \<and> Channel_FromJSON env_ok saved_payload session_empty world_init
       = (Inr (SavedMessages (JStr ''C0'') alice),
          \<lparr>trace = [HTTP (user_request ''U1'' ''tok'')], next_oid = 1\<rparr>,
          session_empty\<lparr>channels := [KStr ''C0'' \<mapsto> SavedMessages (JStr ''C0'') alice]\<rparr>)
   \<and> users (session_empty\<lparr>channels := [KStr ''C0'' \<mapsto> SavedMessages (JStr ''C0'') alice]\<rparr>)
        (KStr ''U1'') = None
   \<and> trace (snd (resolve_user env_ok
        (session_empty\<lparr>channels := [KStr ''C0'' \<mapsto> SavedMessages (JStr ''C0'') alice]\<rparr>)
        (JStr ''U1'') \<lparr>trace = [HTTP (user_request ''U1'' ''tok'')], next_oid = 1\<rparr>))
       = [HTTP (user_request ''U1'' ''tok''), HTTP (user_request ''U1'' ''tok'')]"
  by (simp add: decode_defs env_ok_def saved_payload_def session_empty_def world_init_def alice_def
      user_json_def user_request_def)

text \<open>
  C2, as amended. Resolving a user reference returns the cached entry when one is
  present, with no request. On a miss it sends exactly one request, \<^verbatim>\<open>GET /users/{id}\<close>
  with the session's token, and returns what \<^verbatim>\<open>User.FromJSON\<close> makes of the answer.
  It does not store the user: decoding a channel leaves the session's user cache as
  it was, so a later resolution of the same ID is a miss again.
\<close>

theorem resolve_user_cache:
  "(hash_key i = Inr k \<and> users s k = Some u \<longrightarrow> resolve_user E s i w = (Inr u, w))
   \<and> (users s (KStr n) = None \<longrightarrow>
        resolve_user E s (JStr n) w = User_FromID E (JStr n) (token s) w
        \<and> trace (snd (resolve_user E s (JStr n) w)) = trace w @ [HTTP (user_request n (token s))]
        \<and> (\<forall>result. http E HTTPClient_init (user_request n (token s)) = Inr result \<longrightarrow>
              resolve_user E s (JStr n) w
              = User_FromJSON result (emit (HTTP (user_request n (token s))) w)))
   \<and> users (snd (snd (Channel_FromJSON E data s w))) = users s"
  by (simp add: resolve_user_def User_FromID_trace Channel_FromJSON_users)
    (simp add: User_FromID_def do_request_def AddAuthentication_def user_request_def)

text \<open>C2, witness: U1 cached, and U1 missing and fetched.\<close>

theorem resolve_user_cache_witness:
  "hash_key (JStr ''U1'') = Inr (KStr ''U1'') \<and> users session_cached (KStr ''U1'') = Some alice
   \<and> resolve_user env_ok session_cached (JStr ''U1'') world_one = (Inr alice, world_one)
   \<and> users session_empty (KStr ''U1'') = None
   \<and> http env_ok HTTPClient_init (user_request ''U1'' (token session_empty))
       = Inr (user_json ''U1'' ''alice'')
   \<and> resolve_user env_ok session_empty (JStr ''U1'') world_init
       = (Inr alice, \<lparr>trace = [HTTP (user_request ''U1'' ''tok'')], next_oid = 1\<rparr>)"
proof -
  have cached: "hash_key (JStr ''U1'') = Inr (KStr ''U1'')
      \<and> users session_cached (KStr ''U1'') = Some alice"
    by (simp add: session_cached_def)
  have missing: "users session_empty (KStr ''U1'') = None"
    by (simp add: session_empty_def)
  have answer: "http env_ok HTTPClient_init (user_request ''U1'' (token session_empty))
      = Inr (user_json ''U1'' ''alice'')"
    by (simp add: env_ok_def user_request_def)
  have decoded: "User_FromJSON (user_json ''U1'' ''alice'')
        (emit (HTTP (user_request ''U1'' (token session_empty))) world_init)
      = (Inr alice, \<lparr>trace = [HTTP (user_request ''U1'' ''tok'')], next_oid = 1\<rparr>)"
    by (simp add: User_FromJSON_def User_fields_def kwarg_def bind_r_def emit_def world_init_def
        alice_def user_json_def session_empty_def)
  have hit: "resolve_user env_ok session_cached (JStr ''U1'') world_one = (Inr alice, world_one)"
    using cached
      resolve_user_cache [where i = "JStr ''U1''" and k = "KStr ''U1''" and s = session_cached
        and u = alice and E = env_ok and w = world_one and n = "''U1''" and data = saved_payload]
    by blast
  have miss: "resolve_user env_ok session_empty (JStr ''U1'') world_init
      = User_FromJSON (user_json ''U1'' ''alice'')
          (emit (HTTP (user_request ''U1'' (token session_empty))) world_init)"
    using missing answer
      resolve_user_cache [where s = session_empty and n = "''U1''" and E = env_ok
        and w = world_init and data = saved_payload and i = "JStr ''U1''" and k = "KStr ''U1''"
        and u = alice]
    by blast
  show ?thesis
    using cached missing answer hit miss decoded by simp
qed

text \<open>
  C6, counterexample. The channel C1 is not cached and the request for it is answered
  with the error payload \<^verbatim>\<open>{"type": "NotFound"}\<close>: \<^verbatim>\<open>Channel.FromID\<close> returns \<^verbatim>\<open>None\<close>
  and raises nothing.
\<close>

theorem channel_error_payload_none:
  "channels session_empty (KStr ''C1'') = None
   \<and> http env_ok HTTPClient_init (channel_request ''C1'' ''tok'')
       = Inr (JObj [(''type'', JStr ''NotFound'')])
   \<and> Channel_FromID env_ok ''C1'' session_empty world_init
       = (Inr None, \<lparr>trace = [HTTP (channel_request ''C1'' ''tok'')], next_oid = 0\<rparr>, session_empty)"
  by (simp add: Channel_FromID_def do_request_def emit_def AddAuthentication_def HTTPClient_init_def
      env_ok_def session_empty_def world_init_def channel_request_def)

text \<open>
  C6, as amended. When the transport request of a user fetch or of a channel fetch
  raises, the same error reaches the caller of the operation that triggered it, and the
  session is unchanged: the caller of \<^verbatim>\<open>User.FromID\<close>, of the resolution of a user
  reference, and of \<^verbatim>\<open>Channel.FromID\<close> for its own request. An error raised while
  \<^verbatim>\<open>Channel.FromJSON\<close> resolves a user reference, in the SavedMessages case, at any
  turn of the DirectMessage loop or at the first turn of the Group loop, is the result
  of \<^verbatim>\<open>Channel.FromJSON\<close>; and an error of the \<^verbatim>\<open>Channel.FromJSON\<close> that
  \<^verbatim>\<open>Channel.FromID\<close> calls is the result of \<^verbatim>\<open>Channel.FromID\<close>. A user fetch
  answered with a payload that has no \<^verbatim>\<open>_id\<close>, as an error payload is, raises as
  well. A channel fetch answered with a payload whose \<^verbatim>\<open>type\<close> is not null is the
  exception: the guard in \<^verbatim>\<open>Channel.FromID\<close> returns \<^verbatim>\<open>None\<close> without raising and
  without touching the session.
\<close>

theorem fetch_errors:
  "(http E HTTPClient_init (user_request n tok) = Inl e \<longrightarrow>
      User_FromID E (JStr n) tok w = (Inl e, emit (HTTP (user_request n tok)) w))
   \<and> (users s (KStr n) = None \<and> http E HTTPClient_init (user_request n (token s)) = Inl e \<longrightarrow>
        resolve_user E s (JStr n) w = (Inl e, emit (HTTP (user_request n (token s))) w))
   \<and> (http E HTTPClient_init (user_request n tok) = Inr result \<and> isl (getitem result ''_id'') \<longrightarrow>
        isl (fst (User_FromID E (JStr n) tok w)))
   \<and> (channels s (KStr c) = None \<and> http E HTTPClient_init (channel_request c (token s)) = Inl e \<longrightarrow>
        Channel_FromID E c s w = (Inl e, emit (HTTP (channel_request c (token s))) w, s))
   \<and> (channels s (KStr c) = None
        \<and> http E HTTPClient_init (channel_request c (token s)) = Inr result
        \<and> dict_get result ''type'' = Inr ty \<and> ty \<noteq> JNull \<longrightarrow>
        Channel_FromID E c s w = (Inr None, emit (HTTP (channel_request c (token s))) w, s))
   \<and> (getitem data ''channel_type'' = Inr (JStr ''SavedMessages'')
        \<and> getitem data ''user'' = Inr userID \<and> resolve_user E s userID w = (Inl e, w2) \<longrightarrow>
        Channel_FromJSON E data s w = (Inl e, w2, s))
   \<and> (getitem data ''channel_type'' = Inr (JStr ''DirectMessage'')
        \<and> kwarg data ''last_message_id'' ''last_message_id'' = Inr lm
        \<and> getitem data ''recipients'' = Inr r \<and> iter r = Inr (pre @ userID # rest)
        \<and> dm_loop E s pre [] w = (Inr rs, w1) \<and> resolve_user E s userID w1 = (Inl e, w2) \<longrightarrow>
        Channel_FromJSON E data s w = (Inl e, w2, s))
   \<and> (getitem data ''channel_type'' = Inr (JStr ''Group'')
        \<and> kwarg data ''description'' ''description'' = Inr d
        \<and> kwarg data ''last_message_id'' ''last_message_id'' = Inr lm
        \<and> kwarg data ''permissions'' ''permissions'' = Inr p
        \<and> kwarg data ''nsfw'' ''nsfw'' = Inr ns
        \<and> getitem data ''recipients'' = Inr r \<and> iter r = Inr (userID # rest)
        \<and> resolve_user E s userID w = (Inl e, w2) \<longrightarrow>
        Channel_FromJSON E data s w = (Inl e, w2, s))
   \<and> (channels s (KStr c) = None
        \<and> http E HTTPClient_init (channel_request c (token s)) = Inr result
        \<and> dict_get result ''type'' = Inr JNull
        \<and> Channel_FromJSON E result s (emit (HTTP (channel_request c (token s))) w) = (Inl e, w2, s2)
        \<longrightarrow> Channel_FromID E c s w = (Inl e, w2, s2))"
proof -
  have no_id: "isl (fst (User_FromJSON result w'))" if "isl (getitem result ''_id'')" for w'
    using User_fields_no_id [OF that]
    by (cases "User_fields result") (simp_all add: User_FromJSON_def)
  have user_raises: "http E HTTPClient_init (user_request n tok) = Inl e \<longrightarrow>
      User_FromID E (JStr n) tok w = (Inl e, emit (HTTP (user_request n tok)) w)"
    by (simp add: User_FromID_def do_request_def AddAuthentication_def user_request_def)
  have resolve_raises: "users s (KStr n) = None
      \<and> http E HTTPClient_init (user_request n (token s)) = Inl e \<longrightarrow>
      resolve_user E s (JStr n) w = (Inl e, emit (HTTP (user_request n (token s))) w)"
    by (simp add: resolve_user_def User_FromID_def do_request_def AddAuthentication_def
        user_request_def)
  have user_payload: "http E HTTPClient_init (user_request n tok) = Inr result
      \<and> isl (getitem result ''_id'') \<longrightarrow> isl (fst (User_FromID E (JStr n) tok w))"
    by (simp add: User_FromID_def do_request_def AddAuthentication_def user_request_def no_id)
  have channel_raises: "channels s (KStr c) = None
      \<and> http E HTTPClient_init (channel_request c (token s)) = Inl e \<longrightarrow>
      Channel_FromID E c s w = (Inl e, emit (HTTP (channel_request c (token s))) w, s)"
    by (simp add: Channel_FromID_def do_request_def AddAuthentication_def channel_request_def)
  have channel_guard: "channels s (KStr c) = None
      \<and> http E HTTPClient_init (channel_request c (token s)) = Inr result
      \<and> dict_get result ''type'' = Inr ty \<and> ty \<noteq> JNull \<longrightarrow>
      Channel_FromID E c s w = (Inr None, emit (HTTP (channel_request c (token s))) w, s)"
    by (simp add: Channel_FromID_def do_request_def AddAuthentication_def channel_request_def)
  have saved: "getitem data ''channel_type'' = Inr (JStr ''SavedMessages'')
      \<and> getitem data ''user'' = Inr userID \<and> resolve_user E s userID w = (Inl e, w2) \<longrightarrow>
      Channel_FromJSON E data s w = (Inl e, w2, s)"
    using Channel_FromJSON_raises [of data "JStr ''SavedMessages''" E s w e w2]
      match_SavedMessages_raises [of data userID E s w e w2]
    by simp
  have dm: "getitem data ''channel_type'' = Inr (JStr ''DirectMessage'')
      \<and> kwarg data ''last_message_id'' ''last_message_id'' = Inr lm
      \<and> getitem data ''recipients'' = Inr r \<and> iter r = Inr (pre @ userID # rest)
      \<and> dm_loop E s pre [] w = (Inr rs, w1) \<and> resolve_user E s userID w1 = (Inl e, w2) \<longrightarrow>
      Channel_FromJSON E data s w = (Inl e, w2, s)"
    using Channel_FromJSON_raises [of data "JStr ''DirectMessage''" E s w e w2]
      match_DirectMessage_raises [of data lm r pre userID rest E s w rs w1 e w2]
    by simp
  have grp: "getitem data ''channel_type'' = Inr (JStr ''Group'')
      \<and> kwarg data ''description'' ''description'' = Inr d
      \<and> kwarg data ''last_message_id'' ''last_message_id'' = Inr lm
      \<and> kwarg data ''permissions'' ''permissions'' = Inr p
      \<and> kwarg data ''nsfw'' ''nsfw'' = Inr ns
      \<and> getitem data ''recipients'' = Inr r \<and> iter r = Inr (userID # rest)
      \<and> resolve_user E s userID w = (Inl e, w2) \<longrightarrow>
      Channel_FromJSON E data s w = (Inl e, w2, s)"
    using Channel_FromJSON_raises [of data "JStr ''Group''" E s w e w2]
      match_Group_raises [of data d lm p ns r userID rest E s w e w2]
    by simp
  have nested: "channels s (KStr c) = None
      \<and> http E HTTPClient_init (channel_request c (token s)) = Inr result
      \<and> dict_get result ''type'' = Inr JNull
      \<and> Channel_FromJSON E result s (emit (HTTP (channel_request c (token s))) w) = (Inl e, w2, s2)
      \<longrightarrow> Channel_FromID E c s w = (Inl e, w2, s2)"
    using Channel_FromID_decode_raises [of s c E result w e w2 s2] by simp
  from user_raises resolve_raises user_payload channel_raises channel_guard saved dm grp nested
  show ?thesis
    by (intro conjI)
qed


text \<open>
  C6, witness: a transport on which every request raises, for each of the three
  channel kinds that hold users (in the DirectMessage payload the first recipient is
  cached and the fetch of the second raises); one that answers an unknown user and an
  unknown channel with an error payload; and one that answers the channel request and
  raises on the user fetch of the decoding.
\<close>

theorem fetch_errors_witness:
  "http env_down HTTPClient_init (user_request ''U1'' ''tok'') = Inl (TransportError ''unreachable'')
   \<and> User_FromID env_down (JStr ''U1'') ''tok'' world_init
       = (Inl (TransportError ''unreachable''), emit (HTTP (user_request ''U1'' ''tok'')) world_init)
   \<and> resolve_user env_down session_empty (JStr ''U1'') world_init
       = (Inl (TransportError ''unreachable''), emit (HTTP (user_request ''U1'' ''tok'')) world_init)
   \<and> Channel_FromID env_down ''C1'' session_empty world_init
       = (Inl (TransportError ''unreachable''), emit (HTTP (channel_request ''C1'' ''tok'')) world_init,
          session_empty)
   \<and> http env_ok HTTPClient_init (user_request ''U9'' ''tok'')
       = Inr (JObj [(''type'', JStr ''NotFound'')])
   \<and> isl (fst (User_FromID env_ok (JStr ''U9'') ''tok'' world_init))
   \<and> Channel_FromID env_ok ''C1'' session_empty world_init
       = (Inr None, emit (HTTP (channel_request ''C1'' ''tok'')) world_init, session_empty)
   \<and> Channel_FromJSON env_down saved_payload session_empty world_init
       = (Inl (TransportError ''unreachable''), emit (HTTP (user_request ''U1'' ''tok'')) world_init,
          session_empty)
   \<and> dm_loop env_down session_cached [JStr ''U1''] [] world_one = (Inr [alice], world_one)
   \<and> Channel_FromJSON env_down dm_payload session_cached world_one
       = (Inl (TransportError ''unreachable''), emit (HTTP (user_request ''U2'' ''tok'')) world_one,
          session_cached)
   \<and> Channel_FromJSON env_down group_payload session_empty world_init
       = (Inl (TransportError ''unreachable''), emit (HTTP (user_request ''U1'' ''tok'')) world_init,
          session_empty)
   \<and> http env_half HTTPClient_init (channel_request ''C2'' ''tok'') = Inr dm_payload
   \<and> Channel_FromID env_half ''C2'' session_cached world_one
       = (Inl (TransportError ''unreachable''),
          emit (HTTP (user_request ''U2'' ''tok'')) (emit (HTTP (channel_request ''C2'' ''tok'')) world_one),
          session_cached)"
proof -
  note user_raises = fetch_errors [THEN conjunct1, rule_format]
  note resolve_raises = fetch_errors [THEN conjunct2, THEN conjunct1, rule_format]
  note user_payload = fetch_errors [THEN conjunct2, THEN conjunct2, THEN conjunct1, rule_format]
  note channel_raises = fetch_errors [THEN conjunct2, THEN conjunct2, THEN conjunct2,
      THEN conjunct1, rule_format]
  note channel_guard = fetch_errors [THEN conjunct2, THEN conjunct2, THEN conjunct2,
      THEN conjunct2, THEN conjunct1, rule_format]
  note saved = fetch_errors [THEN conjunct2, THEN conjunct2, THEN conjunct2, THEN conjunct2,
      THEN conjunct2, THEN conjunct1, rule_format]
  note dm = fetch_errors [THEN conjunct2, THEN conjunct2, THEN conjunct2, THEN conjunct2,
      THEN conjunct2, THEN conjunct2, THEN conjunct1, rule_format]
  note grp = fetch_errors [THEN conjunct2, THEN conjunct2, THEN conjunct2, THEN conjunct2,
      THEN conjunct2, THEN conjunct2, THEN conjunct2, THEN conjunct1, rule_format]
  note nested = fetch_errors [THEN conjunct2, THEN conjunct2, THEN conjunct2, THEN conjunct2,
      THEN conjunct2, THEN conjunct2, THEN conjunct2, THEN conjunct2, rule_format]
  have tok: "token session_empty = ''tok''" "token session_cached = ''tok''"
    by (simp_all add: session_empty_def session_cached_def)
  have down: "http env_down HTTPClient_init q = Inl (TransportError ''unreachable'')" for q
    by (simp add: env_down_def)
  have half_user: "http env_half HTTPClient_init (user_request ''U2'' ''tok'')
      = Inl (TransportError ''unreachable'')"
    by (simp add: env_half_def user_request_def)
  have half_channel: "http env_half HTTPClient_init (channel_request ''C2'' ''tok'') = Inr dm_payload"
    by (simp add: env_half_def channel_request_def)
  have not_found: "http env_ok HTTPClient_init (user_request ''U9'' ''tok'')
      = Inr (JObj [(''type'', JStr ''NotFound'')])"
    "http env_ok HTTPClient_init (channel_request ''C1'' ''tok'')
      = Inr (JObj [(''type'', JStr ''NotFound'')])"
    by (simp_all add: env_ok_def user_request_def channel_request_def)
  have c1: "User_FromID env_down (JStr ''U1'') ''tok'' world_init
      = (Inl (TransportError ''unreachable''), emit (HTTP (user_request ''U1'' ''tok'')) world_init)"
    by (rule user_raises) (rule down)
  have c2: "resolve_user E session_empty (JStr ''U1'') w
      = (Inl (TransportError ''unreachable''), emit (HTTP (user_request ''U1'' ''tok'')) w)"
    if "E = env_down" for E w
    using resolve_raises [of session_empty "''U1''" E "TransportError ''unreachable''" w] that down
    by (simp add: tok session_empty_def)
  have c2h: "resolve_user E session_cached (JStr ''U2'') w
      = (Inl (TransportError ''unreachable''), emit (HTTP (user_request ''U2'' ''tok'')) w)"
    if "http E HTTPClient_init (user_request ''U2'' ''tok'') = Inl (TransportError ''unreachable'')"
    for E w
    using resolve_raises [of session_cached "''U2''" E "TransportError ''unreachable''" w] that
    by (simp add: tok session_cached_def)
  have c3: "isl (fst (User_FromID env_ok (JStr ''U9'') ''tok'' world_init))"
    by (rule user_payload [of _ _ _ "JObj [(''type'', JStr ''NotFound'')]"])
      (simp add: not_found)
  have c4: "Channel_FromID env_down ''C1'' session_empty world_init
      = (Inl (TransportError ''unreachable''), emit (HTTP (channel_request ''C1'' ''tok'')) world_init,
         session_empty)"
    using channel_raises [of session_empty "''C1''" env_down "TransportError ''unreachable''" world_init]
      down
    by (simp add: tok session_empty_def)
  have c5: "Channel_FromID env_ok ''C1'' session_empty world_init
      = (Inr None, emit (HTTP (channel_request ''C1'' ''tok'')) world_init, session_empty)"
    using channel_guard [of session_empty "''C1''" env_ok "JObj [(''type'', JStr ''NotFound'')]"
        "JStr ''NotFound''" world_init] not_found
    by (simp add: tok session_empty_def)
  have c6: "Channel_FromJSON env_down saved_payload session_empty world_init
      = (Inl (TransportError ''unreachable''), emit (HTTP (user_request ''U1'' ''tok'')) world_init,
         session_empty)"
    by (rule saved [of _ "JStr ''U1''"]) (simp add: saved_payload_def c2)
  have turn1: "dm_loop E session_cached [JStr ''U1''] [] w = (Inr [alice], w)" for E w
    by (simp add: resolve_user_def session_cached_def)
  have dm_case: "Channel_FromJSON E dm_payload session_cached w
      = (Inl (TransportError ''unreachable''), emit (HTTP (user_request ''U2'' ''tok'')) w,
         session_cached)"
    if "http E HTTPClient_init (user_request ''U2'' ''tok'') = Inl (TransportError ''unreachable'')"
    for E w
    by (rule dm [of _ JNull "JArr [JStr ''U1'', JStr ''U2'']" "[JStr ''U1'']" "JStr ''U2''" "[]"
          _ _ _ "[alice]" w])
      (simp add: dm_payload_def kwarg_def bind_r_def turn1 c2h [OF that] del: dm_loop.simps)
  have c7: "Channel_FromJSON env_down dm_payload session_cached world_one
      = (Inl (TransportError ''unreachable''), emit (HTTP (user_request ''U2'' ''tok'')) world_one,
         session_cached)"
    by (rule dm_case) (rule down)
  have c8: "Channel_FromJSON env_down group_payload session_empty world_init
      = (Inl (TransportError ''unreachable''), emit (HTTP (user_request ''U1'' ''tok'')) world_init,
         session_empty)"
    by (rule grp [of _ JNull JNull JNull JNull "JArr [JStr ''U1'', JStr ''U2'']" "JStr ''U1''"
          "[JStr ''U2'']"])
      (simp add: group_payload_def kwarg_def bind_r_def c2)
  have c9: "Channel_FromID env_half ''C2'' session_cached world_one
      = (Inl (TransportError ''unreachable''),
         emit (HTTP (user_request ''U2'' ''tok'')) (emit (HTTP (channel_request ''C2'' ''tok'')) world_one),
         session_cached)"
    by (rule nested [of _ _ _ dm_payload])
      (simp add: tok half_channel dm_case [OF half_user], simp_all add: session_cached_def dm_payload_def)
  show ?thesis
    using down c1 c2 [of env_down world_init] c3 c4 c5 c6 turn1 c7 c8 c9 not_found half_channel
    by simp
qed

text \<open>
  C10. When the payload has a \<^verbatim>\<open>channel_type\<close> that is none of the five tags, the
  \<^verbatim>\<open>match\<close> builds no channel and leaves \<^verbatim>\<open>None\<close>; the registration in
  \<^verbatim>\<open>session.channels\<close> then raises \<^verbatim>\<open>AttributeError\<close> on \<^verbatim>\<open>channel.channelID\<close>.
  Nothing is fetched, returned or stored: the world and the session are unchanged.
\<close>

theorem unknown_channel_type:
  assumes "getitem data ''channel_type'' = Inr t"
    and "t \<notin> {JStr ''SavedMessages'', JStr ''DirectMessage'', JStr ''Group'', JStr ''TextChannel'',
               JStr ''VoiceChannel''}"
  shows "match_channel_type E t data s w = (Inr None, w)
         \<and> Channel_FromJSON E data s w = (Inl (AttributeError ''channelID''), w, s)"
  using assms by (simp add: Channel_FromJSON_def match_channel_type_def)

text \<open>C10, witness: a payload tagged "Category".\<close>

theorem unknown_channel_type_witness:
  "getitem unknown_payload ''channel_type'' = Inr (JStr ''Category'')
   \<and> JStr ''Category'' \<notin> {JStr ''SavedMessages'', JStr ''DirectMessage'', JStr ''Group'',
        JStr ''TextChannel'', JStr ''VoiceChannel''}
   \<and> Channel_FromJSON env_ok unknown_payload session_empty world_init
       = (Inl (AttributeError ''channelID''), world_init, session_empty)"
proof -
  have tag: "getitem unknown_payload ''channel_type'' = Inr (JStr ''Category'')"
    by (simp add: unknown_payload_def)
  have other: "JStr ''Category'' \<notin> {JStr ''SavedMessages'', JStr ''DirectMessage'', JStr ''Group'',
        JStr ''TextChannel'', JStr ''VoiceChannel''}"
    by simp
  show ?thesis
    using tag other unknown_channel_type [OF tag other, of env_ok session_empty world_init]
    by simp
qed

end
